theory Spec2Isabelle
  imports Main
begin

section \<open>The ledger of \<^verbatim>\<open>audit_app.py\<close>\<close>

text \<open>
  The program keeps a ledger in one worksheet of a remote spreadsheet. Row 1 is a header
  (\<^verbatim>\<open>Date\<close>, \<^verbatim>\<open>Description\<close>, the site names, \<^verbatim>\<open>Closing Balance\<close>); the rows below are
  transaction rows, followed by one \<^verbatim>\<open>TOTAL\<close> row. Four functions work on the sheet:
  \<^verbatim>\<open>ensure_header\<close>, \<^verbatim>\<open>add_site\<close>, \<^verbatim>\<open>update_total_row\<close> and \<^verbatim>\<open>add_transaction\<close>.

  The embedding passes the sheet explicitly. Every call on \<^verbatim>\<open>SHEET\<close> is a remote call that
  may raise; an exception is a value, and a \<^verbatim>\<open>try\<close> block is a case split on it.
  Strings are lists of 8-bit characters: the model covers ASCII text.
\<close>

subsection \<open>Python strings\<close>

text \<open>\<^verbatim>\<open>str.strip()\<close>: the ASCII characters for which \<^verbatim>\<open>str.isspace()\<close> holds are
  0x09 to 0x0D, 0x1C to 0x1F and the space.\<close>

definition isspace :: "char \<Rightarrow> bool" where
  "isspace c = (c \<in> set [CHR 0x09, CHR 0x0A, CHR 0x0B, CHR 0x0C, CHR 0x0D,
                           CHR 0x1C, CHR 0x1D, CHR 0x1E, CHR 0x1F, CHR '' ''])"

definition strip :: "string \<Rightarrow> string" where
  "strip s = rev (dropWhile isspace (rev (dropWhile isspace s)))"

text \<open>\<^verbatim>\<open>str.upper()\<close> on ASCII text.\<close>

definition upper_char :: "char \<Rightarrow> char" where
  "upper_char c =
     (case map_of (zip ''abcdefghijklmnopqrstuvwxyz'' ''ABCDEFGHIJKLMNOPQRSTUVWXYZ'') c of
        Some u \<Rightarrow> u
      | None \<Rightarrow> c)"

definition upper :: "string \<Rightarrow> string" where
  "upper s = map upper_char s"

text \<open>\<^verbatim>\<open>xs.index(x)\<close>: the position of the first occurrence; \<open>None\<close> stands for the
  \<^verbatim>\<open>ValueError\<close> that Python raises when there is none.\<close>

fun index_of :: "'a \<Rightarrow> 'a list \<Rightarrow> nat option" where
  "index_of x [] = None"
| "index_of x (y # ys) = (if y = x then Some 0 else map_option Suc (index_of x ys))"

subsection \<open>\<^verbatim>\<open>datetime.strptime(date, '%Y-%m-%d')\<close>\<close>

text \<open>
  The format compiles to the regular expression
  \<^verbatim>\<open>(?P<Y>\d\d\d\d)-(?P<m>1[0-2]|0[1-9]|[1-9])-(?P<d>3[01]|[12]\d|0[1-9]|[1-9]| [1-9])\<close>,
  the whole string has to be consumed, and the date has to exist (year at least 1, the day
  within the month). \<open>None\<close> stands for the \<^verbatim>\<open>ValueError\<close>.
\<close>

definition isdigit :: "char \<Rightarrow> bool" where
  "isdigit c = (c \<in> set ''0123456789'')"

definition digit_val :: "char \<Rightarrow> nat" where
  "digit_val c = (case index_of c ''0123456789'' of Some n \<Rightarrow> n | None \<Rightarrow> 0)"

definition month_token :: "string \<Rightarrow> nat option" where
  "month_token s =
     (case s of
        [a] \<Rightarrow> if isdigit a \<and> a \<noteq> CHR ''0'' then Some (digit_val a) else None
      | [a, b] \<Rightarrow>
          if a = CHR ''1'' \<and> b \<in> set ''012'' then Some (10 + digit_val b)
          else if a = CHR ''0'' \<and> isdigit b \<and> b \<noteq> CHR ''0'' then Some (digit_val b)
          else None
      | _ \<Rightarrow> None)"

definition day_token :: "string \<Rightarrow> nat option" where
  "day_token s =
     (case s of
        [a] \<Rightarrow> if isdigit a \<and> a \<noteq> CHR ''0'' then Some (digit_val a) else None
      | [a, b] \<Rightarrow>
          if a = CHR ''3'' \<and> b \<in> set ''01'' then Some (30 + digit_val b)
          else if a \<in> set ''12'' \<and> isdigit b then Some (10 * digit_val a + digit_val b)
          else if a \<in> set ''0 '' \<and> isdigit b \<and> b \<noteq> CHR ''0'' then Some (digit_val b)
          else None
      | _ \<Rightarrow> None)"

definition is_leap :: "nat \<Rightarrow> bool" where
  "is_leap y = (y mod 4 = 0 \<and> (y mod 100 \<noteq> 0 \<or> y mod 400 = 0))"

definition days_in_month :: "nat \<Rightarrow> nat \<Rightarrow> nat" where
  "days_in_month y m =
     (if m = 2 then (if is_leap y then 29 else 28)
      else if m \<in> set [4, 6, 9, 11] then 30 else 31)"

definition strptime_ymd :: "string \<Rightarrow> (nat \<times> nat \<times> nat) option" where
  "strptime_ymd s =
     (case s of
        y1 # y2 # y3 # y4 # dash # rest \<Rightarrow>
          if isdigit y1 \<and> isdigit y2 \<and> isdigit y3 \<and> isdigit y4 \<and> dash = CHR ''-'' then
            (let y = 1000 * digit_val y1 + 100 * digit_val y2 + 10 * digit_val y3 + digit_val y4;
                 mtok = takeWhile (\<lambda>c. c \<noteq> CHR ''-'') rest;
                 after = dropWhile (\<lambda>c. c \<noteq> CHR ''-'') rest
             in case after of
                  [] \<Rightarrow> None
                | _ # dtok \<Rightarrow>
                    (case month_token mtok of
                       None \<Rightarrow> None
                     | Some m \<Rightarrow>
                         (case day_token dtok of
                            None \<Rightarrow> None
                          | Some d \<Rightarrow>
                              if 1 \<le> y \<and> d \<le> days_in_month y m then Some (y, m, d)
                              else None)))
          else None
      | _ \<Rightarrow> None)"

subsection \<open>The sheet and its remote calls\<close>

text \<open>
  The worksheet is not part of the program: it is reached through the calls
  \<^verbatim>\<open>get_all_values\<close>, \<^verbatim>\<open>row_values\<close>, \<^verbatim>\<open>insert_row\<close>, \<^verbatim>\<open>update\<close>, \<^verbatim>\<open>insert_cols\<close>,
  \<^verbatim>\<open>delete_rows\<close>, \<^verbatim>\<open>append_row\<close> and the attribute \<^verbatim>\<open>row_count\<close>. The state holds the rows of
  cells as the reads return them (every cell a string), the size of the grid, the outcomes
  of the remote calls to come (\<open>True\<close>: the call raises; a call beyond the end of the list
  succeeds) and what the program has printed.

  A read returns the rows as they are: where a row is shorter than the program expects,
  \<^verbatim>\<open>row[i]\<close> raises \<^verbatim>\<open>IndexError\<close>, as it does in Python.
\<close>

datatype exn = RemoteAccessError | ValueError | IndexError

datatype log_entry = ErrorInitializingHeader exn | ErrorUpdatingTotal exn

record sheet =
  grid :: "string list list"
  row_count :: nat
  faults :: "bool list"
  printed :: "log_entry list"

definition tick :: "sheet \<Rightarrow> bool \<times> sheet" where
  "tick st = (case faults st of [] \<Rightarrow> (False, st) | b # bs \<Rightarrow> (b, st\<lparr>faults := bs\<rparr>))"

text \<open>A remote call: it consumes one outcome, and either raises or reads and changes the grid.\<close>

definition remote :: "(string list list \<Rightarrow> 'a \<times> string list list) \<Rightarrow> sheet \<Rightarrow> (exn + 'a) \<times> sheet" where
  "remote f st =
     (case tick st of
        (True, st') \<Rightarrow> (Inl RemoteAccessError, st')
      | (False, st') \<Rightarrow> (case f (grid st') of (x, g) \<Rightarrow> (Inr x, st'\<lparr>grid := g\<rparr>)))"

definition first_row :: "string list list \<Rightarrow> string list" where
  "first_row g = (case g of [] \<Rightarrow> [] | h # _ \<Rightarrow> h)"

definition get_all_values :: "sheet \<Rightarrow> (exn + string list list) \<times> sheet" where
  "get_all_values = remote (\<lambda>g. (g, g))"

text \<open>\<^verbatim>\<open>row_values(1)\<close>: the cells of the first row, the empty list on an empty sheet.\<close>

definition row_values1 :: "sheet \<Rightarrow> (exn + string list) \<times> sheet" where
  "row_values1 = remote (\<lambda>g. (first_row g, g))"

text \<open>\<^verbatim>\<open>insert_row(values, index)\<close> and \<^verbatim>\<open>delete_rows(index)\<close> count rows from 1.\<close>

definition insert_row :: "string list \<Rightarrow> nat \<Rightarrow> sheet \<Rightarrow> (exn + unit) \<times> sheet" where
  "insert_row vals i = remote (\<lambda>g. ((), take (i - 1) g @ [vals] @ drop (i - 1) g))"

definition delete_rows :: "nat \<Rightarrow> sheet \<Rightarrow> (exn + unit) \<times> sheet" where
  "delete_rows i = remote (\<lambda>g. ((), take (i - 1) g @ drop i g))"

definition append_row :: "string list \<Rightarrow> sheet \<Rightarrow> (exn + unit) \<times> sheet" where
  "append_row vals = remote (\<lambda>g. ((), g @ [vals]))"

text \<open>\<^verbatim>\<open>update('A1', [values])\<close> overwrites the first cells of row 1.\<close>

definition update_A1 :: "string list \<Rightarrow> sheet \<Rightarrow> (exn + unit) \<times> sheet" where
  "update_A1 vals =
     remote (\<lambda>g. ((), case g of [] \<Rightarrow> [vals] | h # rest \<Rightarrow> (vals @ drop (length vals) h) # rest))"

text \<open>
  \<^verbatim>\<open>insert_cols(values, col)\<close> inserts \<open>length values\<close> new columns before column \<open>col\<close>
  (counted from 1) in every row, and writes \<open>values\<close>, one list per column, from the top.
  A cell that receives no value is blank. Rows below the last row of the sheet come into
  being only as far as a value that is not blank is written there.
\<close>

definition cell_at :: "string list \<Rightarrow> nat \<Rightarrow> string" where
  "cell_at xs i = (if i < length xs then xs ! i else [])"

definition row_at :: "string list list \<Rightarrow> nat \<Rightarrow> string list" where
  "row_at g i = (if i < length g then g ! i else [])"

definition insert_cells :: "nat \<Rightarrow> string list \<Rightarrow> string list \<Rightarrow> string list" where
  "insert_cells k new row =
     (let r = row @ replicate (k - length row) [] in take k r @ new @ drop k r)"

definition written_rows :: "string list \<Rightarrow> nat" where
  "written_rows col = length (rev (dropWhile (\<lambda>c. c = []) (rev col)))"

definition insert_cols_grid :: "string list list \<Rightarrow> nat \<Rightarrow> string list list \<Rightarrow> string list list" where
  "insert_cols_grid vals col g =
     (let n = fold max (map written_rows vals) (length g)
      in map (\<lambda>i. insert_cells (col - 1) (map (\<lambda>c. cell_at c i) vals) (row_at g i)) [0..<n])"

definition insert_cols :: "string list list \<Rightarrow> nat \<Rightarrow> sheet \<Rightarrow> (exn + unit) \<times> sheet" where
  "insert_cols vals col = remote (\<lambda>g. ((), insert_cols_grid vals col g))"

subsection \<open>\<^verbatim>\<open>ensure_header\<close>\<close>

definition default_header :: "string list" where
  "default_header = [''Date'', ''Description'', ''Closing Balance'']"

definition ensure_header_body :: "sheet \<Rightarrow> (exn + unit) \<times> sheet" where
  "ensure_header_body st =
     (case get_all_values st of
        (Inl e, st1) \<Rightarrow> (Inl e, st1)
      | (Inr rows, st1) \<Rightarrow>
          if rows = [] then insert_row default_header 1 st1
          else if list_all (\<lambda>cell. strip cell = []) (hd rows) then update_A1 default_header st1
          else (Inr (), st1))"

definition ensure_header :: "sheet \<Rightarrow> sheet" where
  "ensure_header st =
     (case ensure_header_body st of
        (Inl e, st') \<Rightarrow> st'\<lparr>printed := printed st' @ [ErrorInitializingHeader e]\<rparr>
      | (Inr _, st') \<Rightarrow> st')"

subsection \<open>\<^verbatim>\<open>add_site\<close>\<close>

text \<open>The messages that \<^verbatim>\<open>add_site\<close> returns.\<close>

datatype site_msg =
    EnterSiteName
  | SiteExists
  | SiteAdded string
  | ClosingBalanceNotFound
  | FailedToAddSite exn

text \<open>\<^verbatim>\<open>header[2:-1]\<close>\<close>

definition sites_of :: "string list \<Rightarrow> string list" where
  "sites_of header = butlast (drop 2 header)"

text \<open>
  The first \<^verbatim>\<open>SHEET.row_values(1)\<close> stands before the \<^verbatim>\<open>try\<close>: when it raises, the
  exception leaves \<^verbatim>\<open>add_site\<close> (the result \<open>Inl\<close>). The second component of a result
  \<open>Inr\<close> is the tuple of sites, \<open>None\<close> for Python's \<^verbatim>\<open>None\<close>.
\<close>

definition add_site :: "string \<Rightarrow> sheet \<Rightarrow> (exn + site_msg \<times> string list option) \<times> sheet" where
  "add_site new_site0 st =
     (let new_site = strip new_site0 in
      if new_site = [] then (Inr (EnterSiteName, None), st)
      else
        (case row_values1 st of
           (Inl e, st1) \<Rightarrow> (Inl e, st1)
         | (Inr header, st1) \<Rightarrow>
             if new_site \<in> set header then
               (Inr (SiteExists, Some (if length header \<ge> 4 then sites_of header else [])), st1)
             else
               (case index_of ''Closing Balance'' header of
                  None \<Rightarrow> (Inr (ClosingBalanceNotFound, None), st1)
                | Some i \<Rightarrow>
                    (let closing_index = i + 1;
                         values_to_insert = [new_site # replicate (row_count st1 - 1) []]
                     in case insert_cols values_to_insert closing_index st1 of
                          (Inl e, st2) \<Rightarrow> (Inr (FailedToAddSite e, None), st2)
                        | (Inr _, st2) \<Rightarrow>
                            (case row_values1 st2 of
                               (Inl e, st3) \<Rightarrow> (Inr (FailedToAddSite e, None), st3)
                             | (Inr header2, st3) \<Rightarrow>
                                 (Inr (SiteAdded new_site, Some (sites_of header2)), st3))))))"

subsection \<open>\<^verbatim>\<open>update_total_row\<close>\<close>

text \<open>
  Two things are outside the program and are parameters of the model: \<open>float_py\<close>, Python's
  \<^verbatim>\<open>float\<close> on a string (\<open>None\<close> for its \<^verbatim>\<open>ValueError\<close>), and \<open>cell_of\<close>, the text that the
  sheet shows for a number written into a cell. Numbers are of a type \<open>'n\<close> with \<open>0\<close> and
  \<open>+\<close>; the sums are taken in the order in which the program takes them.

  \<^verbatim>\<open>rows[-1][0].upper() == "TOTAL"\<close> raises \<^verbatim>\<open>IndexError\<close> on a row without cells.
\<close>

definition is_total :: "string list \<Rightarrow> exn + bool" where
  "is_total row = (case row of [] \<Rightarrow> Inl IndexError | c # _ \<Rightarrow> Inr (upper c = ''TOTAL''))"

text \<open>
  The statement \<^verbatim>\<open>if rows and rows[-1][0].upper() == "TOTAL": SHEET.delete_rows(len(rows) + 1)\<close>
  stands in \<^verbatim>\<open>update_total_row\<close> and in \<^verbatim>\<open>add_transaction\<close>. The result tells whether the
  branch was taken.
\<close>

definition delete_total_if_last :: "string list list \<Rightarrow> sheet \<Rightarrow> (exn + bool) \<times> sheet" where
  "delete_total_if_last rows st =
     (if rows \<noteq> [] then
        (case is_total (last rows) of
           Inl e \<Rightarrow> (Inl e, st)
         | Inr True \<Rightarrow>
             (case delete_rows (length rows + 1) st of
                (Inl e, st') \<Rightarrow> (Inl e, st')
              | (Inr _, st') \<Rightarrow> (Inr True, st'))
         | Inr False \<Rightarrow> (Inr False, st))
      else (Inr False, st))"

text \<open>\<^verbatim>\<open>sum(float(row[col]) if row[col] else 0 for row in rows)\<close>, from the accumulator \<open>acc\<close>.\<close>

fun sum_column :: "(string \<Rightarrow> 'n option) \<Rightarrow> nat \<Rightarrow> string list list \<Rightarrow> 'n \<Rightarrow> exn + ('n::{plus,zero})" where
  "sum_column float_py col [] acc = Inr acc"
| "sum_column float_py col (row # rows) acc =
     (if col < length row then
        (if row ! col = [] then sum_column float_py col rows (acc + 0)
         else (case float_py (row ! col) of
                 None \<Rightarrow> Inl ValueError
               | Some v \<Rightarrow> sum_column float_py col rows (acc + v)))
      else Inl IndexError)"

text \<open>The loop over \<^verbatim>\<open>site_columns\<close>: it extends \<^verbatim>\<open>totals\<close> and \<^verbatim>\<open>closing_total\<close>.\<close>

fun total_loop :: "(string \<Rightarrow> 'n option) \<Rightarrow> ('n \<Rightarrow> string) \<Rightarrow> string list list \<Rightarrow> nat list \<Rightarrow>
    string list \<Rightarrow> 'n \<Rightarrow> exn + string list \<times> ('n::{plus,zero})" where
  "total_loop float_py cell_of rows [] totals closing_total = Inr (totals, closing_total)"
| "total_loop float_py cell_of rows (col # cols) totals closing_total =
     (case sum_column float_py col rows 0 of
        Inl e \<Rightarrow> Inl e
      | Inr col_sum \<Rightarrow>
          total_loop float_py cell_of rows cols (totals @ [cell_of col_sum]) (closing_total + col_sum))"

definition update_total_row_body :: "(string \<Rightarrow> 'n option) \<Rightarrow> ('n::{plus,zero} \<Rightarrow> string) \<Rightarrow> sheet \<Rightarrow>
    (exn + unit) \<times> sheet" where
  "update_total_row_body float_py cell_of st =
     (case row_values1 st of
        (Inl e, st1) \<Rightarrow> (Inl e, st1)
      | (Inr header, st1) \<Rightarrow>
          (let site_columns = [2 ..< length header - 1] in
           case get_all_values st1 of
             (Inl e, st2) \<Rightarrow> (Inl e, st2)
           | (Inr all_rows, st2) \<Rightarrow>
               (let rows = tl all_rows in
                case delete_total_if_last rows st2 of
                  (Inl e, st3) \<Rightarrow> (Inl e, st3)
                | (Inr deleted, st3) \<Rightarrow>
                    (let rows' = (if deleted then butlast rows else rows) in
                     case total_loop float_py cell_of rows' site_columns [''TOTAL'', []] 0 of
                       Inl e \<Rightarrow> (Inl e, st3)
                     | Inr (totals, closing_total) \<Rightarrow>
                         append_row (totals @ [cell_of closing_total]) st3))))"

definition update_total_row :: "(string \<Rightarrow> 'n option) \<Rightarrow> ('n::{plus,zero} \<Rightarrow> string) \<Rightarrow> sheet \<Rightarrow> sheet" where
  "update_total_row float_py cell_of st =
     (case update_total_row_body float_py cell_of st of
        (Inl e, st') \<Rightarrow> st'\<lparr>printed := printed st' @ [ErrorUpdatingTotal e]\<rparr>
      | (Inr _, st') \<Rightarrow> st')"

subsection \<open>\<^verbatim>\<open>add_transaction\<close>\<close>

text \<open>The messages that \<^verbatim>\<open>add_transaction\<close> returns; the amount is a \<^verbatim>\<open>float\<close>, of
  the type \<open>'n\<close>.\<close>

datatype 'n txn_msg =
    SelectValidSite
  | InvalidDateFormat
  | AmountMustBeNumber
  | SiteColumnMissing
  | TransactionAdded string string string 'n
  | FailedToAddTransaction exn

text \<open>
  The scan for the running balance: every row of \<^verbatim>\<open>rows\<close>, every index of
  \<^verbatim>\<open>range(2, closing_index)\<close>; a cell that is missing or that \<^verbatim>\<open>float\<close> rejects is skipped
  by the bare \<^verbatim>\<open>except\<close>.
\<close>

fun scan_row :: "(string \<Rightarrow> 'n option) \<Rightarrow> string list \<Rightarrow> nat list \<Rightarrow> 'n \<Rightarrow> ('n::{plus,zero})" where
  "scan_row float_py row [] acc = acc"
| "scan_row float_py row (i # idxs) acc =
     (if i < length row then
        (case float_py (row ! i) of
           Some v \<Rightarrow> scan_row float_py row idxs (acc + v)
         | None \<Rightarrow> scan_row float_py row idxs acc)
      else scan_row float_py row idxs acc)"

fun scan_rows :: "(string \<Rightarrow> 'n option) \<Rightarrow> string list list \<Rightarrow> nat list \<Rightarrow> 'n \<Rightarrow> ('n::{plus,zero})" where
  "scan_rows float_py [] idxs acc = acc"
| "scan_rows float_py (row # rows) idxs acc =
     scan_rows float_py rows idxs (scan_row float_py row idxs acc)"

text \<open>Lines 116 to 126: \<^verbatim>\<open>closing_index = len(header)\<close>, the scan from 0 and the new amount.\<close>

definition running_total :: "(string \<Rightarrow> 'n option) \<Rightarrow> string list \<Rightarrow> string list list \<Rightarrow> 'n \<Rightarrow>
    ('n::{plus,zero})" where
  "running_total float_py header rows amount =
     (let closing_index = length header
      in scan_rows float_py rows [2 ..< closing_index] 0 + amount)"

text \<open>Lines 128 and 129: the new row, with the amount at the index \<^verbatim>\<open>site_col_index - 1\<close>.
  \<^verbatim>\<open>[""] * n\<close> is empty for a negative \<^verbatim>\<open>n\<close>, as \<open>replicate\<close> is on the truncated difference.\<close>

definition build_row :: "('n \<Rightarrow> string) \<Rightarrow> string list \<Rightarrow> string \<Rightarrow> string \<Rightarrow> 'n \<Rightarrow> nat \<Rightarrow>
    'n \<Rightarrow> string list" where
  "build_row cell_of header date description total_closing site_col_index amount =
     (let closing_index = length header;
          new_row = [date, description] @ replicate (closing_index - 2) [] @ [cell_of total_closing]
      in new_row [site_col_index - 1 := cell_of amount])"

definition add_transaction_body :: "(string \<Rightarrow> 'n option) \<Rightarrow> ('n \<Rightarrow> string) \<Rightarrow>
    string \<Rightarrow> string \<Rightarrow> string \<Rightarrow> 'n \<Rightarrow> sheet \<Rightarrow> (exn + ('n::{plus,zero}) txn_msg) \<times> sheet" where
  "add_transaction_body float_py cell_of date site description amount st =
     (case row_values1 st of
        (Inl e, st1) \<Rightarrow> (Inl e, st1)
      | (Inr header, st1) \<Rightarrow>
          if site \<notin> set header then (Inr SiteColumnMissing, st1)
          else
            (case index_of site header of
               None \<Rightarrow> (Inl ValueError, st1)
             | Some i \<Rightarrow>
                 (let site_col_index = i + 1 in
                  case get_all_values st1 of
                    (Inl e, st2) \<Rightarrow> (Inl e, st2)
                  | (Inr all_rows, st2) \<Rightarrow>
                      (let rows = tl all_rows;
                           total_closing = running_total float_py header rows amount;
                           new_row = build_row cell_of header date description total_closing
                                       site_col_index amount
                       in case delete_total_if_last rows st2 of
                            (Inl e, st3) \<Rightarrow> (Inl e, st3)
                          | (Inr _, st3) \<Rightarrow>
                              (case append_row new_row st3 of
                                 (Inl e, st4) \<Rightarrow> (Inl e, st4)
                               | (Inr _, st4) \<Rightarrow>
                                   (Inr (TransactionAdded date site description amount),
                                    update_total_row float_py cell_of st4))))))"

definition add_transaction :: "(string \<Rightarrow> 'n option) \<Rightarrow> ('n \<Rightarrow> string) \<Rightarrow>
    string \<Rightarrow> string \<Rightarrow> string \<Rightarrow> string \<Rightarrow> sheet \<Rightarrow> ('n::{plus,zero}) txn_msg \<times> sheet" where
  "add_transaction float_py cell_of date0 site0 description0 amount_text0 st =
     (let date = strip date0;
          site = strip site0;
          description = strip description0;
          amount_text = strip amount_text0
      in if site = ''Select Site'' \<or> site = [] then (SelectValidSite, st)
         else
           (case strptime_ymd date of
              None \<Rightarrow> (InvalidDateFormat, st)
            | Some _ \<Rightarrow>
                (case float_py amount_text of
                   None \<Rightarrow> (AmountMustBeNumber, st)
                 | Some amount \<Rightarrow>
                     (case add_transaction_body float_py cell_of date site description amount st of
                        (Inl e, st') \<Rightarrow> (FailedToAddTransaction e, st')
                      | (Inr m, st') \<Rightarrow> (m, st')))))"

subsection \<open>Whole amounts\<close>

text \<open>
  To run the model, the two parameters are taken on whole numbers: on an optional sign
  followed by decimal digits Python's \<^verbatim>\<open>float\<close> yields that whole number, and the sheet
  shows a whole number in decimal digits.
\<close>

fun digits_val :: "string \<Rightarrow> nat \<Rightarrow> nat option" where
  "digits_val [] acc = Some acc"
| "digits_val (c # cs) acc = (if isdigit c then digits_val cs (10 * acc + digit_val c) else None)"

definition float_whole :: "string \<Rightarrow> int option" where
  "float_whole s =
     (case s of
        [] \<Rightarrow> None
      | c # cs \<Rightarrow>
          if c = CHR ''-'' then (if cs = [] then None else map_option (\<lambda>n. - int n) (digits_val cs 0))
          else if c = CHR ''+'' then (if cs = [] then None else map_option int (digits_val cs 0))
          else map_option int (digits_val s 0))"

fun show_nat :: "nat \<Rightarrow> string" where
  "show_nat n =
     (if n < 10 then [''0123456789'' ! n]
      else show_nat (n div 10) @ [''0123456789'' ! (n mod 10)])"

definition cell_whole :: "int \<Rightarrow> string" where
  "cell_whole x = (if x < 0 then CHR ''-'' # show_nat (nat (- x)) else show_nat (nat x))"

subsection \<open>Vocabulary of the properties\<close>

text \<open>A row below the header is a \<^verbatim>\<open>TOTAL\<close> row when its first cell is \<^verbatim>\<open>TOTAL\<close> in any case
  of the letters. The transaction rows are the rows below the header without a last
  \<^verbatim>\<open>TOTAL\<close> row; the site columns are the indices \<^verbatim>\<open>range(2, len(header) - 1)\<close>.\<close>

definition is_total_row :: "string list \<Rightarrow> bool" where
  "is_total_row row = (case row of [] \<Rightarrow> False | c # _ \<Rightarrow> upper c = ''TOTAL'')"

definition transaction_rows :: "string list list \<Rightarrow> string list list" where
  "transaction_rows g =
     (let rows = tl g in if rows \<noteq> [] \<and> is_total_row (last rows) then butlast rows else rows)"

definition site_columns :: "string list \<Rightarrow> nat list" where
  "site_columns header = [2 ..< length header - 1]"

text \<open>The number in a cell, a blank counting as zero, and the cells that have one.\<close>

definition cell_value :: "(string \<Rightarrow> 'n option) \<Rightarrow> string \<Rightarrow> ('n::zero)" where
  "cell_value float_py s = (if s = [] then 0 else the (float_py s))"

definition blank_or_numeric :: "(string \<Rightarrow> 'n option) \<Rightarrow> string \<Rightarrow> bool" where
  "blank_or_numeric float_py s = (s = [] \<or> float_py s \<noteq> None)"

text \<open>Every row has, in every site column, a cell that is blank or numeric.\<close>

definition site_cells_ok :: "(string \<Rightarrow> 'n option) \<Rightarrow> string list \<Rightarrow> string list list \<Rightarrow> bool" where
  "site_cells_ok float_py header rows =
     (\<forall>r \<in> set rows. \<forall>c \<in> set (site_columns header).
        c < length r \<and> blank_or_numeric float_py (r ! c))"

text \<open>The sum of a column over the rows, and the \<^verbatim>\<open>TOTAL\<close> row as the specification has it:
  \<^verbatim>\<open>["TOTAL", "", sum_1, ..., sum_k, grand_total]\<close>, the grand total being the sum of the
  sums.\<close>

definition column_sum :: "(string \<Rightarrow> 'n option) \<Rightarrow> string list list \<Rightarrow> nat \<Rightarrow> ('n::monoid_add)" where
  "column_sum float_py rows c = sum_list (map (\<lambda>r. cell_value float_py (r ! c)) rows)"

definition total_row :: "(string \<Rightarrow> 'n option) \<Rightarrow> ('n::monoid_add \<Rightarrow> string) \<Rightarrow> string list \<Rightarrow>
    string list list \<Rightarrow> string list" where
  "total_row float_py cell_of header rows =
     [''TOTAL'', []] @ map (\<lambda>c. cell_of (column_sum float_py rows c)) (site_columns header)
       @ [cell_of (sum_list (map (column_sum float_py rows) (site_columns header)))]"

text \<open>The sheet without a last \<^verbatim>\<open>TOTAL\<close> row.\<close>

definition without_total :: "string list list \<Rightarrow> string list list" where
  "without_total g = (if tl g \<noteq> [] \<and> is_total_row (last (tl g)) then butlast g else g)"

text \<open>The state after a remote call that did not raise and wrote nothing.\<close>

definition advance :: "sheet \<Rightarrow> sheet" where
  "advance st = snd (tick st)"

text \<open>The sheet with the default header only, and the sheets of the examples.\<close>

definition sheet_of :: "string list list \<Rightarrow> sheet" where
  "sheet_of g = \<lparr>grid = g, row_count = 1000, faults = [], printed = []\<rparr>"

section \<open>Remote calls\<close>

lemma tick_ok: "True \<notin> set (faults st) \<Longrightarrow> tick st = (False, advance st)"
  by (cases "faults st") (auto simp: tick_def advance_def)

lemma tick_advance: "tick st = (b, st') \<Longrightarrow> st' = advance st"
  by (simp add: advance_def)

lemma advance_grid [simp]: "grid (advance st) = grid st"
  by (simp add: advance_def tick_def split: list.splits)

lemma advance_printed [simp]: "printed (advance st) = printed st"
  by (simp add: advance_def tick_def split: list.splits)

lemma advance_row_count [simp]: "row_count (advance st) = row_count st"
  by (simp add: advance_def tick_def split: list.splits)

lemma advance_no_faults: "True \<notin> set (faults st) \<Longrightarrow> True \<notin> set (faults (advance st))"
  by (cases "faults st") (auto simp: advance_def tick_def)

lemma remote_ok:
  "True \<notin> set (faults st) \<Longrightarrow>
   remote f st = (Inr (fst (f (grid st))), (advance st)\<lparr>grid := snd (f (grid st))\<rparr>)"
  by (simp add: remote_def tick_ok split: prod.splits)


lemma remote_Inl:
  "remote f st = (Inl e, st') \<Longrightarrow> e = RemoteAccessError \<and> st' = advance st"
  by (auto simp: remote_def split: prod.splits bool.splits dest!: tick_advance)

lemma row_values1_ok:
  "True \<notin> set (faults st) \<Longrightarrow> row_values1 st = (Inr (first_row (grid st)), advance st)"
  by (simp add: row_values1_def remote_ok)

lemma get_all_values_ok:
  "True \<notin> set (faults st) \<Longrightarrow> get_all_values st = (Inr (grid st), advance st)"
  by (simp add: get_all_values_def remote_ok)

lemma delete_rows_ok:
  "True \<notin> set (faults st) \<Longrightarrow>
   delete_rows i st = (Inr (), (advance st)\<lparr>grid := take (i - 1) (grid st) @ drop i (grid st)\<rparr>)"
  by (simp add: delete_rows_def remote_ok)

lemma append_row_ok:
  "True \<notin> set (faults st) \<Longrightarrow>
   append_row vals st = (Inr (), (advance st)\<lparr>grid := grid st @ [vals]\<rparr>)"
  by (simp add: append_row_def remote_ok)

lemma insert_cols_ok:
  "True \<notin> set (faults st) \<Longrightarrow>
   insert_cols vals col st = (Inr (), (advance st)\<lparr>grid := insert_cols_grid vals col (grid st)\<rparr>)"
  by (simp add: insert_cols_def remote_ok)

lemma no_faults_grid_update [simp]: "faults (st\<lparr>grid := g\<rparr>) = faults st"
  by simp

section \<open>Sums of columns\<close>

lemma transaction_rows_without_total: "transaction_rows g = tl (without_total g)"
  by (cases g) (auto simp: transaction_rows_def without_total_def Let_def butlast_tl)

lemma sum_column_Inr:
  fixes acc :: "'n::monoid_add"
  shows "sum_column fl c rows acc = Inr v \<Longrightarrow>
    (\<forall>r \<in> set rows. c < length r \<and> blank_or_numeric fl (r ! c)) \<and> v = acc + column_sum fl rows c"
proof (induction rows arbitrary: acc)
  case Nil
  then show ?case by (simp add: column_sum_def)
next
  case (Cons row rows)
  from Cons.prems have len: "c < length row"
    by (simp split: if_splits)
  show ?case
  proof (cases "row ! c = []")
    case True
    with Cons.prems len have "sum_column fl c rows (acc + 0) = Inr v" by simp
    from Cons.IH [OF this] True len show ?thesis
      by (simp add: column_sum_def cell_value_def blank_or_numeric_def)
  next
    case False
    with Cons.prems len obtain x where x: "fl (row ! c) = Some x"
      and rest: "sum_column fl c rows (acc + x) = Inr v"
      by (auto split: option.splits)
    from Cons.IH [OF rest] False len x show ?thesis
      by (simp add: column_sum_def cell_value_def blank_or_numeric_def add.assoc)
  qed
qed

lemma sum_column_ok:
  fixes acc :: "'n::monoid_add"
  shows "\<forall>r \<in> set rows. c < length r \<and> blank_or_numeric fl (r ! c) \<Longrightarrow>
    sum_column fl c rows acc = Inr (acc + column_sum fl rows c)"
proof (induction rows arbitrary: acc)
  case Nil
  then show ?case by (simp add: column_sum_def)
next
  case (Cons row rows)
  then show ?case
    by (auto simp: column_sum_def cell_value_def blank_or_numeric_def add.assoc
        split: if_splits option.splits)
qed

lemma total_loop_Inr:
  fixes ct :: "'n::monoid_add"
  shows "total_loop fl cell rows cols totals ct = Inr (totals', ct') \<Longrightarrow>
    (\<forall>r \<in> set rows. \<forall>c \<in> set cols. c < length r \<and> blank_or_numeric fl (r ! c)) \<and>
    totals' = totals @ map (\<lambda>c. cell (column_sum fl rows c)) cols \<and>
    ct' = ct + sum_list (map (column_sum fl rows) cols)"
proof (induction cols arbitrary: totals ct)
  case Nil
  then show ?case by simp
next
  case (Cons col cols)
  from Cons.prems obtain v where v: "sum_column fl col rows 0 = Inr v"
    and rest: "total_loop fl cell rows cols (totals @ [cell v]) (ct + v) = Inr (totals', ct')"
    by (auto split: sum.splits)
  from sum_column_Inr [OF v] have ok: "\<forall>r \<in> set rows. col < length r \<and> blank_or_numeric fl (r ! col)"
    and veq: "v = column_sum fl rows col" by auto
  from Cons.IH [OF rest] ok veq show ?case
    by (auto simp: add.assoc)
qed

lemma total_loop_ok:
  fixes ct :: "'n::monoid_add"
  shows "\<forall>r \<in> set rows. \<forall>c \<in> set cols. c < length r \<and> blank_or_numeric fl (r ! c) \<Longrightarrow>
    total_loop fl cell rows cols totals ct =
      Inr (totals @ map (\<lambda>c. cell (column_sum fl rows c)) cols,
           ct + sum_list (map (column_sum fl rows) cols))"
proof (induction cols arbitrary: totals ct)
  case Nil
  then show ?case by simp
next
  case (Cons col cols)
  have "sum_column fl col rows 0 = Inr (0 + column_sum fl rows col)"
    using Cons.prems by (intro sum_column_ok) auto
  moreover have "\<forall>r \<in> set rows. \<forall>c \<in> set cols. c < length r \<and> blank_or_numeric fl (r ! c)"
    using Cons.prems by auto
  ultimately show ?case
    using Cons.IH by (simp add: add.assoc)
qed

section \<open>The \<^verbatim>\<open>TOTAL\<close> row\<close>


lemma is_total_Inl: "is_total row = Inl e \<Longrightarrow> row = [] \<and> e = IndexError"
  by (cases row) (auto simp: is_total_def)

lemma is_total_eq: "row \<noteq> [] \<Longrightarrow> is_total row = Inr (is_total_row row)"
  by (cases row) (auto simp: is_total_def is_total_row_def)






lemma append_row_Inl: "append_row vals st = (Inl e, st') \<Longrightarrow> e = RemoteAccessError \<and> st' = advance st"
  by (auto simp: append_row_def dest!: remote_Inl)







lemma delete_total_if_last_ok:
  assumes "True \<notin> set (faults st)" and "tl (grid st) \<noteq> [] \<Longrightarrow> last (tl (grid st)) \<noteq> []"
  shows "delete_total_if_last (tl (grid st)) st =
    (if tl (grid st) \<noteq> [] \<and> is_total_row (last (tl (grid st)))
     then (Inr True, (advance st)\<lparr>grid := butlast (grid st)\<rparr>) else (Inr False, st))"
proof (cases "tl (grid st) = []")
  case True
  then show ?thesis by (simp add: delete_total_if_last_def)
next
  case False
  then have ne: "grid st \<noteq> []" by auto
  from False assms(2) have "is_total (last (tl (grid st))) = Inr (is_total_row (last (tl (grid st))))"
    by (simp add: is_total_eq)
  then show ?thesis
    using False ne assms(1)
    by (simp add: delete_total_if_last_def delete_rows_ok butlast_conv_take)
qed

lemma total_loop_site_cells:
  fixes fl :: "string \<Rightarrow> 'n::monoid_add option"
  shows "total_loop fl cell rows (site_columns header) [''TOTAL'', []] 0 = Inr (totals, ct) \<Longrightarrow>
     site_cells_ok fl header rows \<and> totals @ [cell ct] = total_row fl cell header rows"
  by (drule total_loop_Inr) (auto simp: site_cells_ok_def total_row_def)

lemma total_loop_site_cells_ok:
  fixes fl :: "string \<Rightarrow> 'n::monoid_add option"
  assumes "site_cells_ok fl header rows"
  shows "\<exists>totals ct. total_loop fl cell rows (site_columns header) [''TOTAL'', []] 0 = Inr (totals, ct)
     \<and> totals @ [cell ct] = total_row fl cell header rows"
proof -
  have "\<forall>r \<in> set rows. \<forall>c \<in> set (site_columns header). c < length r \<and> blank_or_numeric fl (r ! c)"
    using assms by (simp add: site_cells_ok_def)
  from total_loop_ok [OF this, of cell "[''TOTAL'', []]" 0] show ?thesis
    by (simp add: total_row_def)
qed



lemma update_total_row_body_ok:
  fixes fl :: "string \<Rightarrow> 'n::{plus,zero} option"
  assumes nf: "True \<notin> set (faults st)"
    and ne: "tl (grid st) \<noteq> [] \<Longrightarrow> last (tl (grid st)) \<noteq> []"
  shows "\<exists>st3. grid st3 = without_total (grid st) \<and> printed st3 = printed st \<and>
           row_count st3 = row_count st \<and> True \<notin> set (faults st3) \<and>
           update_total_row_body fl cell st =
             (case total_loop fl cell (transaction_rows (grid st)) (site_columns (first_row (grid st)))
                     [''TOTAL'', []] 0 of
                Inl e \<Rightarrow> (Inl e, st3)
              | Inr (totals, ct) \<Rightarrow>
                  (Inr (), (advance st3)\<lparr>grid := grid st3 @ [totals @ [cell ct]]\<rparr>))"
proof -
  let ?g = "grid st"
  let ?st2 = "advance (advance st)"
  have nf2: "True \<notin> set (faults ?st2)"
    using nf by (simp add: advance_no_faults)
  have lastne: "tl (grid ?st2) \<noteq> [] \<Longrightarrow> last (tl (grid ?st2)) \<noteq> []"
    using ne by simp
  let ?b = "tl ?g \<noteq> [] \<and> is_total_row (last (tl ?g))"
  define st3 where "st3 = (if ?b then (advance ?st2)\<lparr>grid := butlast ?g\<rparr> else ?st2)"
  have dl: "delete_total_if_last (tl ?g) ?st2 = (Inr ?b, st3)"
    using delete_total_if_last_ok [OF nf2 lastne] by (simp add: st3_def)
  have rows: "(if ?b then butlast (tl ?g) else tl ?g) = transaction_rows ?g"
    by (auto simp: transaction_rows_def)
  have nf3: "True \<notin> set (faults st3)"
    using nf2 by (simp add: advance_no_faults st3_def)
  have g3: "grid st3 = without_total ?g"
    by (simp add: without_total_def st3_def)
  have p3: "printed st3 = printed st" "row_count st3 = row_count st"
    by (simp_all add: st3_def)
  have body1: "update_total_row_body fl cell st =
             (case total_loop fl cell (transaction_rows ?g) (site_columns (first_row ?g))
                     [''TOTAL'', []] 0 of
                Inl e \<Rightarrow> (Inl e, st3)
              | Inr (totals, ct) \<Rightarrow> append_row (totals @ [cell ct]) st3)"
    unfolding update_total_row_body_def
    using nf
    by (simp add: row_values1_ok get_all_values_ok advance_no_faults Let_def dl rows
        site_columns_def)
  have body: "update_total_row_body fl cell st =
             (case total_loop fl cell (transaction_rows ?g) (site_columns (first_row ?g))
                     [''TOTAL'', []] 0 of
                Inl e \<Rightarrow> (Inl e, st3)
              | Inr (totals, ct) \<Rightarrow>
                  (Inr (), (advance st3)\<lparr>grid := grid st3 @ [totals @ [cell ct]]\<rparr>))"
    unfolding body1 using nf3
    by (simp add: append_row_ok split: sum.splits prod.splits)
  show ?thesis
    using g3 nf3 p3 body by (intro exI [of _ st3]) simp
qed






lemma update_total_row_result:
  fixes float_py :: "string \<Rightarrow> 'n::monoid_add option"
  assumes "True \<notin> set (faults st)"
    and "tl (grid st) \<noteq> [] \<Longrightarrow> last (tl (grid st)) \<noteq> []"
  shows "(let header = first_row (grid st);
              rows = transaction_rows (grid st);
              st' = update_total_row float_py cell_of st
          in if site_cells_ok float_py header rows
             then printed st' = printed st \<and>
                  grid st' = without_total (grid st) @ [total_row float_py cell_of header rows]
             else (\<exists>e. printed st' = printed st @ [ErrorUpdatingTotal e]) \<and>
                  grid st' = without_total (grid st))"
proof -
  let ?header = "first_row (grid st)"
  let ?rows = "transaction_rows (grid st)"
  from update_total_row_body_ok [OF assms, of float_py cell_of] obtain st3 where
    g3: "grid st3 = without_total (grid st)" and p3: "printed st3 = printed st"
    and body: "update_total_row_body float_py cell_of st =
             (case total_loop float_py cell_of ?rows (site_columns ?header) [''TOTAL'', []] 0 of
                Inl e \<Rightarrow> (Inl e, st3)
              | Inr (totals, ct) \<Rightarrow>
                  (Inr (), (advance st3)\<lparr>grid := grid st3 @ [totals @ [cell_of ct]]\<rparr>))"
    by blast
  show ?thesis
  proof (cases "site_cells_ok float_py ?header ?rows")
    case True
    from total_loop_site_cells_ok [OF True, of cell_of] obtain totals ct where
      "total_loop float_py cell_of ?rows (site_columns ?header) [''TOTAL'', []] 0 = Inr (totals, ct)"
      and "totals @ [cell_of ct] = total_row float_py cell_of ?header ?rows"
      by blast
    with True body g3 p3 show ?thesis
      by (simp add: update_total_row_def Let_def)
  next
    case False
    have "\<exists>e. total_loop float_py cell_of ?rows (site_columns ?header) [''TOTAL'', []] 0 = Inl e"
    proof (cases "total_loop float_py cell_of ?rows (site_columns ?header) [''TOTAL'', []] 0")
      case (Inl e)
      then show ?thesis by blast
    next
      case (Inr p)
      obtain totals ct where "p = (totals, ct)" by (cases p)
      with Inr total_loop_site_cells [of float_py cell_of ?rows ?header totals ct] False
      show ?thesis by simp
    qed
    then obtain e where
      "total_loop float_py cell_of ?rows (site_columns ?header) [''TOTAL'', []] 0 = Inl e" ..
    with False body g3 p3 show ?thesis
      by (simp add: update_total_row_def Let_def)
  qed
qed

section \<open>The running balance\<close>

text \<open>
  Claim C1: for transactions inserted into a sheet that starts with the default header, the
  closing-balance cell of the last transaction row is the sum of the amounts of all
  transaction rows; amounts 100 then -20 give closing balances 100 then 80.

  The program at that example, from the default header, with the sites \<^verbatim>\<open>SiteA\<close> and
  \<^verbatim>\<open>SiteB\<close> added first: the second row carries 280, not 80, and in both rows the number
  stands one cell to the right of the \<^verbatim>\<open>Closing Balance\<close> column, whose cell stays blank.
  The scan of \<^verbatim>\<open>add_transaction\<close> runs over the \<^verbatim>\<open>TOTAL\<close> row too (100 + 0 + 100), and
  the new row has \<^verbatim>\<open>len(header) + 1\<close> cells.
\<close>

theorem closing_balance_example_run:
  "(let s1 = snd (add_site ''SiteA'' (sheet_of [default_header]));
        s2 = snd (add_site ''SiteB'' s1);
        s3 = snd (add_transaction float_whole cell_whole
                    ''2024-01-01'' ''SiteA'' ''rent'' ''100'' s2);
        s4 = snd (add_transaction float_whole cell_whole
                    ''2024-01-02'' ''SiteB'' ''food'' ''-20'' s3)
    in grid s4) =
      [[''Date'', ''Description'', ''SiteA'', ''SiteB'', ''Closing Balance''],
       [''2024-01-01'', ''rent'', ''100'', [], [], ''100''],
       [''2024-01-02'', ''food'', [], ''-20'', [], ''280''],
       [''TOTAL'', [], ''100'', ''-20'', ''80'']]"
  by code_simp

text \<open>
  Claim C2: when \<^verbatim>\<open>add_transaction\<close> computes the running balance, a trailing \<^verbatim>\<open>TOTAL\<close> row
  is left out of the scan, so that only transaction rows contribute.

  The program on a sheet with one transaction of 5 and its \<^verbatim>\<open>TOTAL\<close> row, for a new amount
  of 1: the balance written is 16 = 5 + (5 + 5) + 1, the cells of the \<^verbatim>\<open>TOTAL\<close> row
  included; the \<^verbatim>\<open>TOTAL\<close> row is deleted only after the scan.
\<close>

theorem scan_includes_total_row:
  "add_transaction float_whole cell_whole ''2024-01-02'' ''SiteA'' ''tea'' ''1''
     (sheet_of [[''Date'', ''Description'', ''SiteA'', ''Closing Balance''],
                [''2024-01-01'', ''rent'', ''5'', [], ''5''],
                [''TOTAL'', [], ''5'', ''5'']]) =
   (TransactionAdded ''2024-01-02'' ''SiteA'' ''tea'' 1,
    sheet_of [[''Date'', ''Description'', ''SiteA'', ''Closing Balance''],
              [''2024-01-01'', ''rent'', ''5'', [], ''5''],
              [''2024-01-02'', ''tea'', ''1'', [], ''16''],
              [''TOTAL'', [], ''6'', ''6'']])"
  by code_simp

section \<open>Failures\<close>

text \<open>
  Claim C8: in each of the four operations, a remote call that raises is caught inside the
  operation and turned into a message or a log entry; no remote failure leaves the operation.

  In \<^verbatim>\<open>add_site\<close> the first \<^verbatim>\<open>SHEET.row_values(1)\<close> stands before the \<^verbatim>\<open>try\<close>: when it
  raises, \<^verbatim>\<open>add_site\<close> raises.
\<close>

theorem add_site_header_read_propagates:
  "add_site ''Cafe'' ((sheet_of [default_header])\<lparr>faults := [True]\<rparr>) =
     (Inl RemoteAccessError, sheet_of [default_header])"
  by code_simp

text \<open>
  Claim C9: an input of \<^verbatim>\<open>add_transaction\<close> that fails validation (no site selected, a date
  that is not \<^verbatim>\<open>YYYY-MM-DD\<close>, an amount that \<^verbatim>\<open>float\<close> rejects) returns the failure that
  belongs to it, and the state is the one before the call: no remote call was made.
\<close>

theorem validation_failure_changes_nothing:
  assumes "strip site0 = ''Select Site'' \<or> strip site0 = []
           \<or> strptime_ymd (strip date0) = None
           \<or> float_py (strip amount_text0) = None"
  shows "add_transaction float_py cell_of date0 site0 description0 amount_text0 st =
           (if strip site0 = ''Select Site'' \<or> strip site0 = [] then SelectValidSite
            else if strptime_ymd (strip date0) = None then InvalidDateFormat
            else AmountMustBeNumber, st)"
  using assms by (auto simp: add_transaction_def Let_def split: option.splits)

theorem validation_failure_changes_nothing_witness:
  "strptime_ymd (strip ''2024-13-01'') = None \<and>
   add_transaction float_whole cell_whole ''2024-13-01'' ''SiteA'' ''rent'' ''100''
       (sheet_of [[''Date'', ''Description'', ''SiteA'', ''Closing Balance'']]) =
     (InvalidDateFormat, sheet_of [[''Date'', ''Description'', ''SiteA'', ''Closing Balance'']])"
proof -
  have d: "strptime_ymd (strip ''2024-13-01'') = None"
    by (simp add: strptime_ymd_def strip_def isspace_def isdigit_def month_token_def)
  have s: "strip ''SiteA'' = ''SiteA''"
    by (simp add: strip_def isspace_def)
  show ?thesis
    using d s validation_failure_changes_nothing
      [of "''SiteA''" "''2024-13-01''" float_whole "''100''" cell_whole "''rent''"
          "sheet_of [[''Date'', ''Description'', ''SiteA'', ''Closing Balance'']]"]
    by simp
qed






section \<open>Sites\<close>

lemma remote_first_ok:
  "\<not> fst (tick st) \<Longrightarrow>
   remote f st = (Inr (fst (f (grid st))), (advance st)\<lparr>grid := snd (f (grid st))\<rparr>)"
proof -
  assume "\<not> fst (tick st)"
  then have "tick st = (False, advance st)"
    by (cases "tick st") (auto simp: advance_def)
  then show ?thesis
    by (simp add: remote_def split: prod.splits)
qed

lemma sites_of_short: "length header < 4 \<Longrightarrow> sites_of header = []"
proof -
  assume "length header < 4"
  then have "length (drop 2 header) \<le> 1" by simp
  then have "butlast (drop 2 header) = []"
    by (cases "drop 2 header") auto
  then show ?thesis by (simp add: sites_of_def)
qed

lemma index_of_Some: "x \<in> set xs \<Longrightarrow> \<exists>k. index_of x xs = Some k \<and> k < length xs \<and> xs ! k = x \<and> x \<notin> set (take k xs)"
proof (induction xs)
  case Nil
  then show ?case by simp
next
  case (Cons y ys)
  show ?case
  proof (cases "y = x")
    case True
    then show ?thesis by simp
  next
    case False
    with Cons obtain k where "index_of x ys = Some k" "k < length ys" "ys ! k = x" "x \<notin> set (take k ys)"
      by auto
    with False show ?thesis by auto
  qed
qed

lemma written_rows_one: "x \<noteq> [] \<Longrightarrow> written_rows (x # replicate m []) = 1"
proof -
  assume x: "x \<noteq> []"
  have "rev (x # replicate m []) = replicate m [] @ [x]" by simp
  moreover have "dropWhile (\<lambda>c. c = []) (replicate m [] @ [x]) = dropWhile (\<lambda>c. c = []) [x]"
    by (rule dropWhile_append2) simp
  ultimately show ?thesis using x by (simp add: written_rows_def)
qed

lemma cell_at_column: "cell_at (x # replicate m []) i = (if i = 0 then x else [])"
  by (cases i) (auto simp: cell_at_def)

lemma insert_one_column:
  assumes "x \<noteq> []"
  shows "insert_cols_grid [x # replicate m []] (Suc k) (header # rest) =
           insert_cells k [x] header # map (insert_cells k [[]]) rest"
proof (rule nth_equalityI)
  show "length (insert_cols_grid [x # replicate m []] (Suc k) (header # rest)) =
        length (insert_cells k [x] header # map (insert_cells k [[]]) rest)"
    using assms by (simp add: insert_cols_grid_def written_rows_one)
next
  fix i
  assume "i < length (insert_cols_grid [x # replicate m []] (Suc k) (header # rest))"
  then have i: "i < Suc (length rest)"
    using assms by (simp add: insert_cols_grid_def written_rows_one)
  then have "insert_cols_grid [x # replicate m []] (Suc k) (header # rest) ! i =
        insert_cells k [cell_at (x # replicate m []) i] (row_at (header # rest) i)"
    using assms by (simp add: insert_cols_grid_def written_rows_one del: upt_Suc)
  also have "\<dots> = (insert_cells k [x] header # map (insert_cells k [[]]) rest) ! i"
    using i by (cases i) (auto simp: cell_at_column row_at_def)
  finally show "insert_cols_grid [x # replicate m []] (Suc k) (header # rest) ! i =
        (insert_cells k [x] header # map (insert_cells k [[]]) rest) ! i" .
qed

lemma insert_cells_one:
  "insert_cells k [x] row = take k (row @ replicate (k - length row) []) @ x # drop k row"
  by (simp add: insert_cells_def Let_def)

text \<open>
  The name is trimmed and tested for emptiness before anything else: an empty name is
  reported as such, with no list of sites, and no remote call is made.
\<close>

lemma empty_name_reported_first:
  "strip new_site = [] \<Longrightarrow> add_site new_site st = (Inr (EnterSiteName, None), st)"
  by (simp add: add_site_def)

text \<open>
  Claim C7: adding a site whose trimmed name is already in the header row leaves the whole
  sheet unchanged, reports the duplicate and returns the current list of sites,
  \<^verbatim>\<open>header[2:-1]\<close>. The name is one that has passed the test for the empty name, which
  comes first, and the read of the header does not raise.
\<close>

theorem duplicate_site_changes_nothing:
  assumes "strip new_site \<noteq> []"
    and "strip new_site \<in> set (first_row (grid st))"
    and "\<not> fst (tick st)"
  shows "fst (add_site new_site st) = Inr (SiteExists, Some (sites_of (first_row (grid st))))
         \<and> grid (snd (add_site new_site st)) = grid st
         \<and> row_count (snd (add_site new_site st)) = row_count st
         \<and> printed (snd (add_site new_site st)) = printed st"
proof -
  have rv: "row_values1 st = (Inr (first_row (grid st)), advance st)"
    using assms(3) by (simp add: row_values1_def remote_first_ok)
  show ?thesis
    using assms(1,2) by (simp add: add_site_def Let_def rv sites_of_short)
qed

theorem duplicate_site_changes_nothing_witness:
  "strip '' Cafe '' \<noteq> [] \<and>
   add_site '' Cafe '' (sheet_of [[''Date'', ''Description'', ''Cafe'', ''Depot'', ''Closing Balance'']]) =
     (Inr (SiteExists, Some [''Cafe'', ''Depot'']),
      sheet_of [[''Date'', ''Description'', ''Cafe'', ''Depot'', ''Closing Balance'']])"
proof -
  let ?S = "sheet_of [[''Date'', ''Description'', ''Cafe'', ''Depot'', ''Closing Balance'']]"
  have s: "strip '' Cafe '' = ''Cafe''" by (simp add: strip_def isspace_def)
  have 1: "strip '' Cafe '' \<noteq> []" by (simp add: s)
  have 2: "strip '' Cafe '' \<in> set (first_row (grid ?S))" by (simp add: s sheet_of_def first_row_def)
  have 3: "\<not> fst (tick ?S)" by (simp add: tick_def sheet_of_def)
  have 4: "snd (add_site '' Cafe '' ?S) = ?S" by code_simp
  have 5: "sites_of (first_row (grid ?S)) = [''Cafe'', ''Depot'']" by code_simp
  from duplicate_site_changes_nothing [OF 1 2 3] 4 5 1 show ?thesis
    by (simp add: prod_eq_iff)
qed

text \<open>
  Claim C6: for a header with a \<^verbatim>\<open>Closing Balance\<close> cell and a name whose trimmed form is
  not empty and not in the header, \<^verbatim>\<open>add_site\<close> (the remote calls succeeding) inserts one
  column immediately to the left of \<^verbatim>\<open>Closing Balance\<close>: its header cell is the trimmed
  name, its other cells are blank, every row keeps its other cells in their order, and the
  result is the new list of sites, \<^verbatim>\<open>header[2:-1]\<close> of the new header.
\<close>

theorem add_site_inserts_one_column:
  assumes nf: "True \<notin> set (faults st)"
    and g: "grid st = header # rest"
    and cb: "''Closing Balance'' \<in> set header"
    and ne: "strip new_site \<noteq> []"
    and new: "strip new_site \<notin> set header"
  shows "\<exists>k header'.
           index_of ''Closing Balance'' header = Some k \<and>
           header' = take k header @ strip new_site # drop k header \<and>
           header' ! k = strip new_site \<and>
           header' ! Suc k = ''Closing Balance'' \<and>
           fst (add_site new_site st) = Inr (SiteAdded (strip new_site), Some (sites_of header')) \<and>
           grid (snd (add_site new_site st)) =
             header' # map (\<lambda>r. take k (r @ replicate (k - length r) []) @ [] # drop k r) rest"
proof -
  from index_of_Some [OF cb] obtain k where
    k: "index_of ''Closing Balance'' header = Some k" and kl: "k < length header"
    and kcb: "header ! k = ''Closing Balance''"
    by blast
  let ?h' = "take k header @ strip new_site # drop k header"
  let ?f = "\<lambda>r. take k (r @ replicate (k - length r) []) @ [] # drop k r"
  let ?st1 = "advance st"
  let ?g' = "?h' # map ?f rest"
  let ?st2 = "(advance ?st1)\<lparr>grid := ?g'\<rparr>"
  have rv: "row_values1 st = (Inr header, ?st1)"
    using nf g by (simp add: row_values1_ok first_row_def)
  have nf1: "True \<notin> set (faults ?st1)"
    using nf by (rule advance_no_faults)
  have grid': "insert_cols_grid [strip new_site # replicate (row_count st - 1) []] (Suc k) (grid st) = ?g'"
    using kl by (simp add: g insert_one_column [OF ne] insert_cells_one)
  have ic: "insert_cols [strip new_site # replicate (row_count ?st1 - 1) []] (k + 1) ?st1 = (Inr (), ?st2)"
    using nf1 grid' by (simp add: insert_cols_ok)
  have nf2: "True \<notin> set (faults ?st2)"
    using nf1 by (simp add: advance_no_faults)
  have rv2: "row_values1 ?st2 = (Inr ?h', advance ?st2)"
    using nf2 by (simp add: row_values1_ok first_row_def)
  have res: "add_site new_site st = (Inr (SiteAdded (strip new_site), Some (sites_of ?h')), advance ?st2)"
    using ne new ic rv2 by (simp add: add_site_def Let_def rv k)
  have n1: "?h' ! k = strip new_site"
    using kl by (simp add: nth_append)
  have n2: "?h' ! Suc k = ''Closing Balance''"
    using kl kcb by (simp add: nth_append)
  show ?thesis
    using k n1 n2 res by (intro exI [of _ k] exI [of _ ?h']) simp
qed

theorem add_site_inserts_one_column_witness:
  "add_site '' Cafe ''
     (sheet_of [[''Date'', ''Description'', ''Depot'', ''Closing Balance''],
                [''2024-01-01'', ''rent'', ''5'', [], ''5''],
                [''TOTAL'', [], ''5'', ''5'']]) =
   (Inr (SiteAdded ''Cafe'', Some [''Depot'', ''Cafe'']),
    sheet_of [[''Date'', ''Description'', ''Depot'', ''Cafe'', ''Closing Balance''],
              [''2024-01-01'', ''rent'', ''5'', [], [], ''5''],
              [''TOTAL'', [], ''5'', [], ''5'']])"
proof -
  let ?h = "[''Date'', ''Description'', ''Depot'', ''Closing Balance'']"
  let ?rest = "[[''2024-01-01'', ''rent'', ''5'', [], ''5''], [''TOTAL'', [], ''5'', ''5'']]"
  let ?S = "sheet_of (?h # ?rest)"
  have s: "strip '' Cafe '' = ''Cafe''" by (simp add: strip_def isspace_def)
  have 1: "True \<notin> set (faults ?S)" by (simp add: sheet_of_def)
  have 2: "grid ?S = ?h # ?rest" by (simp add: sheet_of_def)
  have 3: "''Closing Balance'' \<in> set ?h" by simp
  have 4: "strip '' Cafe '' \<noteq> []" by (simp add: s)
  have 5: "strip '' Cafe '' \<notin> set ?h" by (simp add: s)
  have k: "index_of ''Closing Balance'' ?h = Some 3" by simp
  from add_site_inserts_one_column [OF 1 2 3 4 5] k
  have r: "fst (add_site '' Cafe '' ?S) =
             Inr (SiteAdded ''Cafe'', Some (sites_of (take 3 ?h @ ''Cafe'' # drop 3 ?h)))"
    and gr: "grid (snd (add_site '' Cafe '' ?S)) =
       (take 3 ?h @ ''Cafe'' # drop 3 ?h)
         # map (\<lambda>r. take 3 (r @ replicate (3 - length r) []) @ [] # drop 3 r) ?rest"
    by (auto simp: s)
  have st: "snd (add_site '' Cafe '' ?S) =
     sheet_of (grid (snd (add_site '' Cafe '' ?S)))"
    by code_simp
  have "add_site '' Cafe '' ?S = (fst (add_site '' Cafe '' ?S), snd (add_site '' Cafe '' ?S))"
    by simp
  also have "\<dots> = (Inr (SiteAdded ''Cafe'', Some [''Depot'', ''Cafe'']),
    sheet_of [[''Date'', ''Description'', ''Depot'', ''Cafe'', ''Closing Balance''],
              [''2024-01-01'', ''rent'', ''5'', [], [], ''5''],
              [''TOTAL'', [], ''5'', [], ''5'']])"
    unfolding r by (subst st, simp add: gr sites_of_def)
  finally show ?thesis .
qed

section \<open>Transactions\<close>

lemma index_of_None: "x \<notin> set xs \<Longrightarrow> index_of x xs = None"
  by (induction xs) auto



lemma add_transaction_body_ok:
  assumes nf: "True \<notin> set (faults st)"
    and idx: "index_of site (first_row (grid st)) = Some i"
    and ne: "tl (grid st) \<noteq> [] \<Longrightarrow> last (tl (grid st)) \<noteq> []"
  shows "\<exists>st4. grid st4 = without_total (grid st)
                   @ [build_row cell (first_row (grid st)) date description
                        (running_total fl (first_row (grid st)) (tl (grid st)) amount) (Suc i) amount] \<and>
           printed st4 = printed st \<and> row_count st4 = row_count st \<and> True \<notin> set (faults st4) \<and>
           add_transaction_body fl cell date site description amount st =
             (Inr (TransactionAdded date site description amount), update_total_row fl cell st4)"
proof -
  let ?g = "grid st"
  let ?st2 = "advance (advance st)"
  let ?row = "build_row cell (first_row ?g) date description
                (running_total fl (first_row ?g) (tl ?g) amount) (Suc i) amount"
  have nf2: "True \<notin> set (faults ?st2)"
    using nf by (simp add: advance_no_faults)
  have lastne: "tl (grid ?st2) \<noteq> [] \<Longrightarrow> last (tl (grid ?st2)) \<noteq> []"
    using ne by simp
  have mem: "site \<in> set (first_row ?g)"
    using idx index_of_None [of site "first_row ?g"] by auto
  let ?b = "tl ?g \<noteq> [] \<and> is_total_row (last (tl ?g))"
  define st3 where "st3 = (if ?b then (advance ?st2)\<lparr>grid := butlast ?g\<rparr> else ?st2)"
  have dl: "delete_total_if_last (tl ?g) ?st2 = (Inr ?b, st3)"
    using delete_total_if_last_ok [OF nf2 lastne] by (simp add: st3_def)
  have nf3: "True \<notin> set (faults st3)"
    using nf2 by (simp add: advance_no_faults st3_def)
  have g3: "grid st3 = without_total ?g"
    by (simp add: without_total_def st3_def)
  have p3: "printed st3 = printed st" "row_count st3 = row_count st"
    by (simp_all add: st3_def)
  define st4 where "st4 = (advance st3)\<lparr>grid := grid st3 @ [?row]\<rparr>"
  have ap: "append_row ?row st3 = (Inr (), st4)"
    using nf3 by (simp add: append_row_ok st4_def)
  have nf4: "True \<notin> set (faults st4)"
    using nf3 by (simp add: st4_def advance_no_faults)
  have body: "add_transaction_body fl cell date site description amount st =
             (Inr (TransactionAdded date site description amount), update_total_row fl cell st4)"
    unfolding add_transaction_body_def
    using nf mem
    by (simp add: row_values1_ok get_all_values_ok advance_no_faults Let_def idx dl ap)
  show ?thesis
    using g3 p3 nf4 body by (intro exI [of _ st4]) (simp add: st4_def)
qed

lemma upper_char_digit: "\<forall>c \<in> set ''0123456789''. upper_char c \<noteq> CHR ''T''"
  by (simp add: upper_char_def)

lemma upper_digit_first:
  assumes "isdigit c"
  shows "upper (c # cs) \<noteq> ''TOTAL''"
proof -
  from assms upper_char_digit have "upper_char c \<noteq> CHR ''T''"
    unfolding isdigit_def by blast
  then show ?thesis
    by (simp add: upper_def)
qed

lemma strptime_not_total: "strptime_ymd s \<noteq> None \<Longrightarrow> upper s \<noteq> ''TOTAL''"
proof -
  assume a: "strptime_ymd s \<noteq> None"
  then obtain c cs where s: "s = c # cs" and "isdigit c"
    by (auto simp: strptime_ymd_def split: list.splits if_splits)
  then show ?thesis by (simp add: upper_digit_first)
qed


lemma build_row_hd:
  "build_row cell header date description tc (Suc i) amount ! 0 = (if i = 0 then cell amount else date)"
  by (cases i) (simp_all add: build_row_def Let_def)


lemma build_row_not_empty:
  "build_row cell header date description tc (Suc i) amount \<noteq> []"
proof -
  have "length (build_row cell header date description tc (Suc i) amount) = 3 + (length header - 2)"
    by (simp only: build_row_def Let_def length_list_update) simp
  then show ?thesis by auto
qed

lemma is_total_row_build_row:
  assumes d: "strptime_ymd date \<noteq> None" and a: "upper (cell amount) \<noteq> ''TOTAL''"
  shows "\<not> is_total_row (build_row cell header date description tc (Suc i) amount)"
proof -
  let ?row = "build_row cell header date description tc (Suc i) amount"
  obtain x xs where row: "?row = x # xs"
    using build_row_not_empty [of cell header date description tc i amount]
    by (cases ?row) auto
  then have "x = ?row ! 0" by simp
  then have x: "x = (if i = 0 then cell amount else date)"
    by (simp only: build_row_hd)
  have "upper x \<noteq> ''TOTAL''"
  proof (cases "i = 0")
    case True
    with x a show ?thesis by simp
  next
    case False
    with x strptime_not_total [OF d] show ?thesis by simp
  qed
  with row show ?thesis by (simp add: is_total_row_def)
qed

lemma without_total_not_empty: "g \<noteq> [] \<Longrightarrow> without_total g \<noteq> []"
proof -
  assume g: "g \<noteq> []"
  show ?thesis
  proof (cases "tl g \<noteq> [] \<and> is_total_row (last (tl g))")
    case True
    with g obtain h r rs where "g = h # r # rs"
      by (cases g; cases "tl g") auto
    then show ?thesis by (simp add: without_total_def)
  next
    case False
    with g show ?thesis by (auto simp: without_total_def)
  qed
qed

lemma first_row_without_total: "first_row (without_total g) = first_row g"
proof (cases "tl g \<noteq> [] \<and> is_total_row (last (tl g))")
  case True
  then obtain h r rs where "g = h # r # rs"
    by (cases g; cases "tl g") auto
  then show ?thesis by (simp add: without_total_def first_row_def)
next
  case False
  then show ?thesis by (auto simp: without_total_def)
qed

lemma first_row_append: "g \<noteq> [] \<Longrightarrow> first_row (g @ rs) = first_row g"
  by (cases g) (auto simp: first_row_def)



lemma add_transaction_body_grid:
  fixes fl :: "string \<Rightarrow> 'n::monoid_add option"
  assumes nf: "True \<notin> set (faults st)"
    and idx: "index_of site (first_row (grid st)) = Some i"
    and ne: "tl (grid st) \<noteq> [] \<Longrightarrow> last (tl (grid st)) \<noteq> []"
    and nt: "\<not> is_total_row (build_row cell (first_row (grid st)) date description
                (running_total fl (first_row (grid st)) (tl (grid st)) amount) (Suc i) amount)"
  shows "fst (add_transaction_body fl cell date site description amount st) =
           Inr (TransactionAdded date site description amount) \<and>
         (let header = first_row (grid st);
              row = build_row cell header date description
                      (running_total fl header (tl (grid st)) amount) (Suc i) amount;
              rows = transaction_rows (grid st) @ [row];
              g' = grid (snd (add_transaction_body fl cell date site description amount st))
          in if site_cells_ok fl header rows
             then g' = without_total (grid st) @ [row, total_row fl cell header rows]
             else g' = without_total (grid st) @ [row])"
proof -
  let ?g = "grid st"
  let ?h = "first_row ?g"
  let ?row = "build_row cell ?h date description (running_total fl ?h (tl ?g) amount) (Suc i) amount"
  from add_transaction_body_ok [OF nf idx ne, of cell date description fl amount] obtain st4 where
    g4: "grid st4 = without_total ?g @ [?row]" and nf4: "True \<notin> set (faults st4)"
    and body: "add_transaction_body fl cell date site description amount st =
             (Inr (TransactionAdded date site description amount), update_total_row fl cell st4)"
    by blast
  have mem: "site \<in> set ?h"
    using idx index_of_None [of site ?h] by auto
  then have gne: "?g \<noteq> []" by (auto simp: first_row_def)
  then have wne: "without_total ?g \<noteq> []" by (rule without_total_not_empty)
  have tl4: "tl (grid st4) = transaction_rows ?g @ [?row]"
    using wne by (simp add: g4 transaction_rows_without_total)
  have last4: "last (tl (grid st4)) = ?row" by (simp add: tl4)
  have rne: "?row \<noteq> []" by (rule build_row_not_empty)
  have ne4: "tl (grid st4) \<noteq> [] \<Longrightarrow> last (tl (grid st4)) \<noteq> []"
    using rne by (simp add: last4)
  have w4: "without_total (grid st4) = grid st4"
    using nt by (simp add: without_total_def last4)
  have t4: "transaction_rows (grid st4) = transaction_rows ?g @ [?row]"
    by (simp add: transaction_rows_without_total w4 tl4)
  have h4: "first_row (grid st4) = ?h"
    using wne by (simp add: g4 first_row_append first_row_without_total)
  from update_total_row_result [OF nf4 ne4, of fl cell]
  have "if site_cells_ok fl ?h (transaction_rows ?g @ [?row])
        then grid (update_total_row fl cell st4) =
               grid st4 @ [total_row fl cell ?h (transaction_rows ?g @ [?row])]
        else grid (update_total_row fl cell st4) = grid st4"
    by (simp add: Let_def w4 t4 h4 split: if_splits)
  then show ?thesis
    by (simp add: body Let_def g4 split: if_splits)
qed






lemma add_transaction_valid:
  assumes "strip site0 \<noteq> ''Select Site''" and "strip site0 \<noteq> []"
    and "strptime_ymd (strip date0) \<noteq> None" and "fl (strip amount_text0) = Some a"
  shows "add_transaction fl cell date0 site0 description0 amount_text0 st =
    (case add_transaction_body fl cell (strip date0) (strip site0) (strip description0) a st of
       (Inl e, st') \<Rightarrow> (FailedToAddTransaction e, st')
     | (Inr m, st') \<Rightarrow> (m, st'))"
  using assms by (auto simp: add_transaction_def Let_def)

text \<open>
  Claim C10: \<^verbatim>\<open>add_transaction\<close> looks the site up in the whole header row. With the site
  \<^verbatim>\<open>Date\<close> or \<^verbatim>\<open>Description\<close>, the names of the two fixed columns, the transaction is
  accepted, and the new row carries the amount in that column, in the place of the date or of
  the description.
\<close>

theorem fixed_column_accepted_as_site:
  fixes float_py :: "string \<Rightarrow> 'n::monoid_add option"
  assumes nf: "True \<notin> set (faults st)"
    and header: "first_row (grid st) = ''Date'' # ''Description'' # cols"
    and rows: "[] \<notin> set (tl (grid st))"
    and date: "strptime_ymd (strip date0) \<noteq> None"
    and amount: "float_py (strip amount_text0) = Some a"
    and site: "strip site0 = ''Date'' \<or> strip site0 = ''Description''"
    and shown: "upper (cell_of a) \<noteq> ''TOTAL''"
  shows "fst (add_transaction float_py cell_of date0 site0 description0 amount_text0 st) =
           TransactionAdded (strip date0) (strip site0) (strip description0) a \<and>
         (\<exists>row \<in> set (tl (grid (snd (add_transaction float_py cell_of date0 site0 description0
                                         amount_text0 st)))).
            length row = length (first_row (grid st)) + 1 \<and>
            (if strip site0 = ''Date''
             then row ! 0 = cell_of a \<and> row ! 1 = strip description0
             else row ! 0 = strip date0 \<and> row ! 1 = cell_of a))"
proof -
  let ?g = "grid st"
  let ?h = "first_row ?g"
  let ?date = "strip date0" and ?site = "strip site0" and ?desc = "strip description0"
  let ?body = "add_transaction_body float_py cell_of ?date ?site ?desc a st"
  define i :: nat where "i = (if ?site = ''Date'' then 0 else 1)"
  have idx: "index_of ?site ?h = Some i"
    using site by (auto simp: header i_def)
  have v: "?site \<noteq> ''Select Site''" "?site \<noteq> []"
    using site by auto
  have ne: "tl ?g \<noteq> [] \<Longrightarrow> last (tl ?g) \<noteq> []"
    using rows by (metis last_in_set)
  let ?row = "build_row cell_of ?h ?date ?desc (running_total float_py ?h (tl ?g) a) (Suc i) a"
  let ?rows = "transaction_rows ?g @ [?row]"
  have nt: "\<not> is_total_row ?row"
    using date shown by (rule is_total_row_build_row)
  from add_transaction_body_grid [OF nf idx ne nt]
  have fb: "fst ?body = Inr (TransactionAdded ?date ?site ?desc a)"
    and gb: "grid (snd ?body) = without_total ?g @ [?row, total_row float_py cell_of ?h ?rows]
             \<or> grid (snd ?body) = without_total ?g @ [?row]"
    by (auto simp: Let_def split: if_splits)
  have res: "add_transaction float_py cell_of date0 site0 description0 amount_text0 st =
               (TransactionAdded ?date ?site ?desc a, snd ?body)"
    using fb v date amount
      add_transaction_valid [of site0 date0 float_py amount_text0 a cell_of description0 st]
    by (simp split: prod.splits)
  have gne: "?g \<noteq> []" using header by (auto simp: first_row_def)
  then have wne: "without_total ?g \<noteq> []" by (rule without_total_not_empty)
  have mem: "?row \<in> set (tl (grid (snd ?body)))"
    using gb wne by (cases "without_total ?g") auto
  have len: "length ?row = length ?h + 1"
    by (simp only: build_row_def Let_def length_list_update) (simp add: header)
  have cells: "if ?site = ''Date'' then ?row ! 0 = cell_of a \<and> ?row ! 1 = ?desc
               else ?row ! 0 = ?date \<and> ?row ! 1 = cell_of a"
    by (simp add: i_def build_row_def Let_def)
  show ?thesis
    unfolding res using mem len cells by auto
qed

theorem fixed_column_accepted_as_site_witness:
  "fst (add_transaction float_whole cell_whole ''2024-01-02'' ''Date'' ''food'' ''-20''
          (sheet_of [[''Date'', ''Description'', ''SiteA'', ''SiteB'', ''Closing Balance''],
                     [''2024-01-01'', ''rent'', ''100'', [], [], ''100''],
                     [''TOTAL'', [], ''100'', ''0'', ''100'']])) =
     TransactionAdded ''2024-01-02'' ''Date'' ''food'' (- 20) \<and>
   (\<exists>row \<in> set (tl (grid (snd
       (add_transaction float_whole cell_whole ''2024-01-02'' ''Date'' ''food'' ''-20''
          (sheet_of [[''Date'', ''Description'', ''SiteA'', ''SiteB'', ''Closing Balance''],
                     [''2024-01-01'', ''rent'', ''100'', [], [], ''100''],
                     [''TOTAL'', [], ''100'', ''0'', ''100'']]))))).
      length row = 6 \<and> row ! 0 = ''-20'' \<and> row ! 1 = ''food'')"
proof -
  let ?S = "sheet_of [[''Date'', ''Description'', ''SiteA'', ''SiteB'', ''Closing Balance''],
                     [''2024-01-01'', ''rent'', ''100'', [], [], ''100''],
                     [''TOTAL'', [], ''100'', ''0'', ''100'']]"
  have nf: "True \<notin> set (faults ?S)" by (simp add: sheet_of_def)
  have h: "first_row (grid ?S) = ''Date'' # ''Description'' # [''SiteA'', ''SiteB'', ''Closing Balance'']"
    by (simp add: sheet_of_def first_row_def)
  have rows: "[] \<notin> set (tl (grid ?S))" by (simp add: sheet_of_def)
  have sd: "strip ''2024-01-02'' = ''2024-01-02''" by (simp add: strip_def isspace_def)
  have ss: "strip ''Date'' = ''Date''" by (simp add: strip_def isspace_def)
  have sf: "strip ''food'' = ''food''" by (simp add: strip_def isspace_def)
  have sa: "strip ''-20'' = ''-20''" by (simp add: strip_def isspace_def)
  have date: "strptime_ymd (strip ''2024-01-02'') \<noteq> None"
    by code_simp
  have amount: "float_whole (strip ''-20'') = Some (- 20)"
    by code_simp
  have site: "strip ''Date'' = ''Date'' \<or> strip ''Date'' = ''Description''"
    by (simp add: ss)
  have shown: "upper (cell_whole (- 20)) \<noteq> ''TOTAL''"
    by code_simp
  have c: "cell_whole (- 20) = ''-20''" by code_simp
  from nf h rows date amount site shown
    fixed_column_accepted_as_site [of ?S "[''SiteA'', ''SiteB'', ''Closing Balance'']"
      "''2024-01-02''" float_whole "''-20''" "- 20" "''Date''" cell_whole "''food''"]
  show ?thesis
    by (simp add: sd ss sf c eval_nat_numeral)
qed

end
